theory Spec2Isabelle
  imports Complex_Main
begin

section \<open>Strings\<close>

text \<open>
  Source strings are modelled as \<^typ>\<open>string\<close>. Text outside ASCII is taken in its UTF-8
  encoding (the en dash and em dash of the separator list are three bytes each); substring
  search, splitting and joining agree with the source on such text. Whitespace and letter
  case are modelled on ASCII: \<open>trim\<close> and \<open>\s\<close> are the six ASCII white-space
  characters, \<open>toLowerCase\<close> maps \<open>A\<close>..\<open>Z\<close> to \<open>a\<close>..\<open>z\<close>.
\<close>

definition startsWith :: "string \<Rightarrow> string \<Rightarrow> bool" where
  "startsWith s p = (take (length p) s = p)"

fun includesStr :: "string \<Rightarrow> string \<Rightarrow> bool" where
  "includesStr [] sub = (sub = [])"
| "includesStr (c # cs) sub = (startsWith (c # cs) sub \<or> includesStr cs sub)"

definition isSpace :: "char \<Rightarrow> bool" where
  "isSpace c = (c \<in> set [CHR '' '', CHR 0x09, CHR 0x0A, CHR 0x0B, CHR 0x0C, CHR 0x0D])"

definition trim :: "string \<Rightarrow> string" where
  "trim s = rev (dropWhile isSpace (rev (dropWhile isSpace s)))"

definition toLowerChar :: "char \<Rightarrow> char" where
  "toLowerChar c =
     (case map_of (zip ''ABCDEFGHIJKLMNOPQRSTUVWXYZ'' ''abcdefghijklmnopqrstuvwxyz'') c of
        Some l \<Rightarrow> l
      | None \<Rightarrow> c)"

definition toLowerCase :: "string \<Rightarrow> string" where
  "toLowerCase s = map toLowerChar s"

text \<open>
  \<open>s.split(sep)\<close> for a non-empty separator string: the pieces between the
  non-overlapping occurrences of \<open>sep\<close>, found left to right. \<open>acc\<close> is the piece
  being read. (The separators of this program are non-empty constants; an empty separator,
  which the source would split into characters, yields the whole string here.)
\<close>

function splitFrom :: "string \<Rightarrow> string \<Rightarrow> string \<Rightarrow> string list" where
  "splitFrom sep acc [] = [acc]"
| "splitFrom sep acc (c # cs) =
     (if sep \<noteq> [] \<and> startsWith (c # cs) sep
      then acc # splitFrom sep [] (drop (length sep) (c # cs))
      else splitFrom sep (acc @ [c]) cs)"
  by pat_completeness auto
termination
  by (relation "measure (\<lambda>(sep, acc, s). length s)") auto

definition split :: "string \<Rightarrow> string \<Rightarrow> string list" where
  "split s sep = splitFrom sep [] s"

fun join :: "string \<Rightarrow> string list \<Rightarrow> string" where
  "join sep [] = []"
| "join sep [p] = p"
| "join sep (p # q # ps) = p @ sep @ join sep (q # ps)"

section \<open>Ingestion: artist extraction (services/sync.ts)\<close>

record extracted =
  artist :: string
  cleanTitle :: string

text \<open>\<open>artist.replace(/ - Topic$/i, '').trim()\<close>\<close>

definition cleanArtistName :: "string \<Rightarrow> string" where
  "cleanArtistName a =
     trim (if 8 \<le> length a \<and> toLowerCase (drop (length a - 8) a) = '' - topic''
           then take (length a - 8) a else a)"

definition enDash :: string where
  "enDash = [CHR 0xE2, CHR 0x80, CHR 0x93]"

definition emDash :: string where
  "emDash = [CHR 0xE2, CHR 0x80, CHR 0x94]"

definition separators :: "string list" where
  "separators = ['' - '', '' '' @ enDash @ '' '', '' '' @ emDash @ '' '', '': '', '' | '']"

fun trySeparators :: "string list \<Rightarrow> string \<Rightarrow> extracted option" where
  "trySeparators [] title = None"
| "trySeparators (sep # seps) title =
     (if includesStr title sep then
        (case split title sep of
           p0 # p1 # ps \<Rightarrow>
             if p0 \<noteq> [] then
               Some \<lparr>artist = cleanArtistName (trim p0),
                     cleanTitle = trim (join sep (p1 # ps))\<rparr>
             else trySeparators seps title
         | _ \<Rightarrow> trySeparators seps title)
      else trySeparators seps title)"

definition extractArtistFromTitle :: "string \<Rightarrow> string \<Rightarrow> extracted" where
  "extractArtistFromTitle title fallback =
     (case trySeparators separators title of
        Some r \<Rightarrow> r
      | None \<Rightarrow> \<lparr>artist = cleanArtistName fallback, cleanTitle = title\<rparr>)"

section \<open>Store (db/schema.ts, db/index.ts, types)\<close>

text \<open>
  The five relations of the schema, each a list of rows in insertion order. Columns filled
  by \<open>CURRENT_TIMESTAMP\<close> take the time \<open>now\<close> handed to the operation; a command
  runs at one such time. The \<open>AUTOINCREMENT\<close> keys of \<open>sources\<close> and
  \<open>categories\<close> are drawn from the largest key handed out so far. Foreign keys are
  declared in the schema but never switched on by the program, so no operation checks them.
\<close>

type_synonym timestamp = nat

datatype source_type = Liked | PlaylistSource

record Source =
  src_id :: int
  src_type :: source_type
  src_name :: string
  src_youtube_id :: "string option"
  src_last_synced :: "timestamp option"
  src_created_at :: timestamp

record NewSource =
  ns_type :: source_type
  ns_name :: string
  ns_youtube_id :: "string option"

record Song =
  song_id :: string
  song_title :: string
  song_artist :: "string option"
  song_source_id :: "int option"
  song_added_at :: timestamp
  song_ai_processed :: bool

record NewSong =
  nsong_id :: string
  nsong_title :: string
  nsong_artist :: "string option"
  nsong_source_id :: "int option"

record Category =
  cat_id :: int
  cat_song_id :: string
  cat_type :: string
  cat_value :: string
  cat_confidence :: real
  cat_created_at :: timestamp

record NewCategory =
  ncat_song_id :: string
  ncat_type :: string
  ncat_value :: string
  ncat_confidence :: real

record Playlist =
  pl_id :: string
  pl_name :: string
  pl_youtube_playlist_id :: "string option"
  pl_category_type :: string
  pl_category_value :: string
  pl_created_at :: timestamp
  pl_updated_at :: timestamp

record NewPlaylist =
  npl_id :: string
  npl_name :: string
  npl_youtube_playlist_id :: "string option"
  npl_category_type :: string
  npl_category_value :: string

record PlaylistSong =
  ps_playlist_id :: string
  ps_song_id :: string
  ps_added_at :: timestamp

record Database =
  sources :: "Source list"
  songs :: "Song list"
  categories :: "Category list"
  playlists :: "Playlist list"
  playlist_songs :: "PlaylistSong list"
  seq_sources :: int
  seq_categories :: int

subsection \<open>Source operations\<close>

definition insertSource :: "timestamp \<Rightarrow> NewSource \<Rightarrow> Database \<Rightarrow> int \<times> Database" where
  "insertSource now s db =
     (let i = seq_sources db + 1
      in (i, db\<lparr>sources := sources db @
                    [\<lparr>src_id = i, src_type = ns_type s, src_name = ns_name s,
                      src_youtube_id = ns_youtube_id s, src_last_synced = None,
                      src_created_at = now\<rparr>],
                  seq_sources := i\<rparr>))"

definition getSourceById :: "Database \<Rightarrow> int \<Rightarrow> Source option" where
  "getSourceById db i = find (\<lambda>s. src_id s = i) (sources db)"

definition getSourceByYoutubeId :: "Database \<Rightarrow> string \<Rightarrow> Source option" where
  "getSourceByYoutubeId db y = find (\<lambda>s. src_youtube_id s = Some y) (sources db)"

definition updateSourceSyncTime :: "timestamp \<Rightarrow> int \<Rightarrow> Database \<Rightarrow> Database" where
  "updateSourceSyncTime now i db =
     db\<lparr>sources := map (\<lambda>s. if src_id s = i then s\<lparr>src_last_synced := Some now\<rparr> else s)
                        (sources db)\<rparr>"

subsection \<open>Song operations\<close>

text \<open>\<open>INSERT OR IGNORE\<close>: a row whose primary key is already taken is dropped.\<close>

definition insertSong :: "timestamp \<Rightarrow> NewSong \<Rightarrow> Database \<Rightarrow> Database" where
  "insertSong now s db =
     (if nsong_id s \<in> set (map song_id (songs db)) then db
      else db\<lparr>songs := songs db @
                 [\<lparr>song_id = nsong_id s, song_title = nsong_title s,
                   song_artist = nsong_artist s, song_source_id = nsong_source_id s,
                   song_added_at = now, song_ai_processed = False\<rparr>]\<rparr>)"

definition insertSongs :: "timestamp \<Rightarrow> NewSong list \<Rightarrow> Database \<Rightarrow> Database" where
  "insertSongs now rows db = foldl (\<lambda>d s. insertSong now s d) db rows"

text \<open>\<open>ORDER BY added_at DESC\<close>; rows of equal time come latest insertion first.\<close>

definition getAllSongs :: "Database \<Rightarrow> Song list" where
  "getAllSongs db = rev (sort_key song_added_at (songs db))"

definition markSongAsProcessed :: "string \<Rightarrow> Database \<Rightarrow> Database" where
  "markSongAsProcessed i db =
     db\<lparr>songs := map (\<lambda>s. if song_id s = i then s\<lparr>song_ai_processed := True\<rparr> else s)
                      (songs db)\<rparr>"

subsection \<open>Category operations\<close>

definition insertCategory :: "timestamp \<Rightarrow> NewCategory \<Rightarrow> Database \<Rightarrow> Database" where
  "insertCategory now c db =
     (let i = seq_categories db + 1
      in db\<lparr>categories := categories db @
                [\<lparr>cat_id = i, cat_song_id = ncat_song_id c, cat_type = ncat_type c,
                  cat_value = ncat_value c, cat_confidence = ncat_confidence c,
                  cat_created_at = now\<rparr>],
              seq_categories := i\<rparr>)"

definition getCategoriesBySongId :: "Database \<Rightarrow> string \<Rightarrow> Category list" where
  "getCategoriesBySongId db i = filter (\<lambda>c. cat_song_id c = i) (categories db)"

subsection \<open>Playlist operations\<close>

text \<open>\<open>INSERT OR REPLACE\<close>: a row with the same primary key is removed first.\<close>

definition insertPlaylist :: "timestamp \<Rightarrow> NewPlaylist \<Rightarrow> Database \<Rightarrow> Database" where
  "insertPlaylist now p db =
     db\<lparr>playlists := filter (\<lambda>q. pl_id q \<noteq> npl_id p) (playlists db) @
          [\<lparr>pl_id = npl_id p, pl_name = npl_name p,
            pl_youtube_playlist_id = npl_youtube_playlist_id p,
            pl_category_type = npl_category_type p,
            pl_category_value = npl_category_value p,
            pl_created_at = now, pl_updated_at = now\<rparr>]\<rparr>"


definition getPlaylistByName :: "Database \<Rightarrow> string \<Rightarrow> Playlist option" where
  "getPlaylistByName db n = find (\<lambda>p. pl_name p = n) (playlists db)"



definition addSongToPlaylist :: "timestamp \<Rightarrow> string \<Rightarrow> string \<Rightarrow> Database \<Rightarrow> Database" where
  "addSongToPlaylist now p s db =
     (if (p, s) \<in> set (map (\<lambda>m. (ps_playlist_id m, ps_song_id m)) (playlist_songs db)) then db
      else db\<lparr>playlist_songs := playlist_songs db @
                 [\<lparr>ps_playlist_id = p, ps_song_id = s, ps_added_at = now\<rparr>]\<rparr>)"


definition clearPlaylistSongs :: "string \<Rightarrow> Database \<Rightarrow> Database" where
  "clearPlaylistSongs p db =
     db\<lparr>playlist_songs := filter (\<lambda>m. ps_playlist_id m \<noteq> p) (playlist_songs db)\<rparr>"

subsection \<open>Utility\<close>

definition resetData :: "Database \<Rightarrow> Database" where
  "resetData db =
     db\<lparr>playlist_songs := [], categories := [], playlists := [], songs := [],
        sources := map (\<lambda>s. s\<lparr>src_last_synced := None\<rparr>) (sources db)\<rparr>"

definition clearPlaylists :: "Database \<Rightarrow> Database" where
  "clearPlaylists db = db\<lparr>playlist_songs := [], playlists := []\<rparr>"

section \<open>Ingestion: syncSource (services/sync.ts)\<close>

text \<open>
  An error thrown by a remote call: its \<open>message\<close> and \<open>code\<close>, when it has them.
  \<open>isQuotaError\<close> is the test the program applies where it looks for quota exhaustion:
  \<open>error.message?.includes('quota') || error.code === 403\<close>.
\<close>

record ApiError =
  err_message :: "string option"
  err_code :: "int option"


text \<open>
  What the catalog returns for one video (all pages of a listing taken together; items
  without snippet or identifier, which the source skips, are left out): the snippet's title
  and channel title may be missing. \<open>x || 'Unknown'\<close> replaces a missing
  or empty string.
\<close>

record RawVideo =
  rv_id :: string
  rv_title :: "string option"
  rv_channelTitle :: "string option"

record VideoItem =
  vid_id :: string
  vid_title :: string
  vid_artist :: string
  vid_channelTitle :: string

record Catalog =
  likedVideos :: "ApiError + RawVideo list"
  playlistVideos :: "string option \<Rightarrow> ApiError + RawVideo list"

definition orUnknown :: "string option \<Rightarrow> string" where
  "orUnknown x = (case x of Some s \<Rightarrow> if s = [] then ''Unknown'' else s | None \<Rightarrow> ''Unknown'')"

definition toVideoItem :: "RawVideo \<Rightarrow> VideoItem" where
  "toVideoItem rv =
     (let title = orUnknown (rv_title rv);
          channel = orUnknown (rv_channelTitle rv);
          e = extractArtistFromTitle title channel
      in \<lparr>vid_id = rv_id rv, vid_title = cleanTitle e, vid_artist = artist e,
           vid_channelTitle = channel\<rparr>)"

definition fetchLikedVideos :: "Catalog \<Rightarrow> ApiError + VideoItem list" where
  "fetchLikedVideos yt = map_sum id (map toVideoItem) (likedVideos yt)"

definition fetchPlaylistVideos :: "Catalog \<Rightarrow> string option \<Rightarrow> ApiError + VideoItem list" where
  "fetchPlaylistVideos yt playlistId = map_sum id (map toVideoItem) (playlistVideos yt playlistId)"

definition nonMusicPatterns :: "string list" where
  "nonMusicPatterns =
     [''podcast'', ''interview'', ''talk show'', ''documentary'', ''news'', ''vlog'',
      ''review'', ''reaction'', ''tutorial'', ''lesson'', ''course'']"

definition filterMusicVideos :: "VideoItem list \<Rightarrow> VideoItem list" where
  "filterMusicVideos videos =
     filter (\<lambda>v. \<not> list_ex (includesStr (toLowerCase (vid_title v @ '' '' @ vid_channelTitle v)))
                           nonMusicPatterns)
            videos"

definition toNewSong :: "int \<Rightarrow> VideoItem \<Rightarrow> NewSong" where
  "toNewSong sourceId v =
     \<lparr>nsong_id = vid_id v, nsong_title = vid_title v, nsong_artist = Some (vid_artist v),
      nsong_source_id = Some sourceId\<rparr>"

datatype sync_error = SourceNotFound int | UpstreamError ApiError

definition syncSource :: "timestamp \<Rightarrow> Catalog \<Rightarrow> int \<Rightarrow> Database \<Rightarrow> sync_error + Database" where
  "syncSource now yt sourceId db =
     (case getSourceById db sourceId of
        None \<Rightarrow> Inl (SourceNotFound sourceId)
      | Some source \<Rightarrow>
          (case (if src_type source = Liked then fetchLikedVideos yt
                 else fetchPlaylistVideos yt (src_youtube_id source)) of
             Inl e \<Rightarrow> Inl (UpstreamError e)
           | Inr videos \<Rightarrow>
               (let musicVideos = filterMusicVideos videos;
                    rows = map (toNewSong sourceId) musicVideos
                in if rows \<noteq> []
                   then Inr (updateSourceSyncTime now sourceId (insertSongs now rows db))
                   else Inr db)))"

section \<open>Classification: handleAnalyzeCommand (cli/analyze.ts, services/gemini.ts)\<close>

datatype AnalysisType = Mood | Genre | Energy | All

text \<open>
  One entry of the \<open>analyses\<close> array of the parsed response (\<open>song_id\<close> is the position
  in the prompt, counted from 1), and the entry \<open>parseResponse\<close> makes of it.
\<close>

record RawAnalysis =
  ra_song_id :: int
  ra_mood :: "string list option"
  ra_genre :: "string list option"
  ra_energy :: "string option"

record SongAnalysis =
  an_song_id :: string
  an_mood :: "string list option"
  an_genre :: "string list option"
  an_energy :: "string option"

text \<open>
  The reply to one \<open>generateContent\<close> call: the call throws, or it returns a text, which
  \<open>JSON.parse\<close> turns into a list of entries or rejects (\<open>None\<close>).
\<close>

datatype ai_reply = AiFails ApiError | AiText "RawAnalysis list option"

definition keepAnalysis :: "Song list \<Rightarrow> RawAnalysis \<Rightarrow> SongAnalysis list" where
  "keepAnalysis batch a =
     (let songIndex = ra_song_id a - 1
      in if 0 \<le> songIndex \<and> songIndex < int (length batch)
         then [\<lparr>an_song_id = song_id (batch ! nat songIndex), an_mood = ra_mood a,
                 an_genre = ra_genre a, an_energy = ra_energy a\<rparr>]
         else [])"

definition parseResponse :: "RawAnalysis list \<Rightarrow> Song list \<Rightarrow> SongAnalysis list" where
  "parseResponse parsed batch = concat (map (keepAnalysis batch) parsed)"

definition insertValues :: "timestamp \<Rightarrow> string \<Rightarrow> string \<Rightarrow> string list \<Rightarrow> Database \<Rightarrow> Database" where
  "insertValues now sid ty vs db =
     foldl (\<lambda>d v. insertCategory now
                     \<lparr>ncat_song_id = sid, ncat_type = ty, ncat_value = v, ncat_confidence = 1\<rparr> d)
           db vs"

definition saveAnalysis :: "timestamp \<Rightarrow> AnalysisType \<Rightarrow> Database \<Rightarrow> SongAnalysis \<Rightarrow> Database" where
  "saveAnalysis now ty db a =
     (let db1 = (if ty = Mood \<or> ty = All
                 then (case an_mood a of
                         Some ms \<Rightarrow> insertValues now (an_song_id a) ''mood'' ms db
                       | None \<Rightarrow> db)
                 else db);
          db2 = (if ty = Genre \<or> ty = All
                 then (case an_genre a of
                         Some gs \<Rightarrow> insertValues now (an_song_id a) ''genre'' gs db1
                       | None \<Rightarrow> db1)
                 else db1);
          db3 = (if ty = Energy \<or> ty = All
                 then (case an_energy a of
                         Some e \<Rightarrow> if e \<noteq> []
                                   then insertValues now (an_song_id a) ''energy'' [e] db2
                                   else db2
                       | None \<Rightarrow> db2)
                 else db2)
      in markSongAsProcessed (an_song_id a) db3)"

definition saveAnalyses :: "timestamp \<Rightarrow> AnalysisType \<Rightarrow> Database \<Rightarrow> SongAnalysis list \<Rightarrow> Database" where
  "saveAnalyses now ty db analyses = foldl (saveAnalysis now ty) db analyses"

definition BATCH_SIZE :: nat where
  "BATCH_SIZE = 15"

function batches :: "'a list \<Rightarrow> 'a list list" where
  "batches xs = (if xs = [] then [] else take BATCH_SIZE xs # batches (drop BATCH_SIZE xs))"
  by pat_completeness auto
termination
  by (relation "measure length") (auto simp: BATCH_SIZE_def)

declare batches.simps [simp del]

text \<open>
  The command is modelled from the point where it reads the store: \<open>ty\<close> is what the
  \<open>--type\<close> flag stands for, and the command has found its API key. The state of one
  run: the store, the AI service (a machine with a state of its own, asked
  with the batch and the analysis type), the two tallies, and the log of the calls made, each
  with the batch submitted and the reply.
\<close>

record 'g AnalyzeRun =
  run_db :: Database
  run_ai :: 'g
  run_processed :: nat
  run_failed :: nat
  run_calls :: "(Song list \<times> ai_reply) list"

fun processBatches ::
  "timestamp \<Rightarrow> ('g \<Rightarrow> Song list \<Rightarrow> AnalysisType \<Rightarrow> ai_reply \<times> 'g) \<Rightarrow> AnalysisType \<Rightarrow>
   Song list list \<Rightarrow> 'g AnalyzeRun \<Rightarrow> 'g AnalyzeRun" where
  "processBatches now ask ty [] st = st"
| "processBatches now ask ty (batch # rest) st =
     (let (reply, g') = ask (run_ai st) batch ty;
          st1 = st\<lparr>run_ai := g', run_calls := run_calls st @ [(batch, reply)]\<rparr>
      in case reply of
           AiText (Some parsed) \<Rightarrow>
             (let analyses = parseResponse parsed batch
              in processBatches now ask ty rest
                   (st1\<lparr>run_db := saveAnalyses now ty (run_db st1) analyses,
                        run_processed := run_processed st1 + length analyses\<rparr>))
         | _ \<Rightarrow>
             processBatches now ask ty rest (st1\<lparr>run_failed := run_failed st1 + length batch\<rparr>))"

definition handleAnalyzeCommand ::
  "timestamp \<Rightarrow> ('g \<Rightarrow> Song list \<Rightarrow> AnalysisType \<Rightarrow> ai_reply \<times> 'g) \<Rightarrow> 'g \<Rightarrow> AnalysisType \<Rightarrow>
   Database \<Rightarrow> 'g AnalyzeRun" where
  "handleAnalyzeCommand now ask g ty db =
     (let allSongs = getAllSongs db;
          unprocessedSongs = filter (\<lambda>s. \<not> song_ai_processed s) allSongs;
          st = \<lparr>run_db = db, run_ai = g, run_processed = 0, run_failed = 0, run_calls = []\<rparr>
      in if unprocessedSongs = [] then st
         else processBatches now ask ty (batches unprocessedSongs) st)"

section \<open>Synthesis: handleCreateCommand (cli/create.ts)\<close>

record Filters =
  f_mood :: "string list option"
  f_genre :: "string list option"
  f_energy :: "string list option"

record PlaylistSuggestion =
  sg_name :: string
  sg_description :: string
  sg_filters :: Filters

record SongWithCategories =
  swc_song :: Song
  moods :: "string list"
  genres :: "string list"
  energy :: "string option"

text \<open>\<open>categories.find(c => c.type === 'energy')?.value || null\<close>\<close>

definition energyOf :: "Category list \<Rightarrow> string option" where
  "energyOf cats =
     (case find (\<lambda>c. cat_type c = ''energy'') cats of
        Some c \<Rightarrow> if cat_value c = [] then None else Some (cat_value c)
      | None \<Rightarrow> None)"

definition withCategories :: "Database \<Rightarrow> Song \<Rightarrow> SongWithCategories" where
  "withCategories db song =
     (let cats = getCategoriesBySongId db (song_id song)
      in \<lparr>swc_song = song,
          moods = map cat_value (filter (\<lambda>c. cat_type c = ''mood'') cats),
          genres = map cat_value (filter (\<lambda>c. cat_type c = ''genre'') cats),
          energy = energyOf cats\<rparr>)"

definition songMatches :: "Filters \<Rightarrow> SongWithCategories \<Rightarrow> bool" where
  "songMatches f song =
     (let moodMatch = (case f_mood f of
                         None \<Rightarrow> True
                       | Some ms \<Rightarrow> list_ex (\<lambda>m. m \<in> set (moods song)) ms);
          genreMatch = (case f_genre f of
                          None \<Rightarrow> True
                        | Some gs \<Rightarrow> list_ex (\<lambda>g. g \<in> set (genres song)) gs);
          energyMatch = (case f_energy f of
                           None \<Rightarrow> True
                         | Some es \<Rightarrow>
                             (case energy song of
                                None \<Rightarrow> False
                              | Some e \<Rightarrow> e \<noteq> [] \<and> e \<in> set es))
      in moodMatch \<and> genreMatch \<and> energyMatch)"

text \<open>The elements of a \<open>Set\<close> (or the keys of a \<open>Map\<close>) in the order of first insertion.\<close>

definition inInsertionOrder :: "'a list \<Rightarrow> 'a list" where
  "inInsertionOrder xs = rev (remdups (rev xs))"

text \<open>\<open>name.toLowerCase().replace(/\s+/g, '_')\<close>\<close>

function underscored :: "string \<Rightarrow> string" where
  "underscored [] = []"
| "underscored (c # cs) =
     (if isSpace c then CHR ''_'' # underscored (dropWhile isSpace cs)
      else c # underscored cs)"
  by pat_completeness auto
termination
  by (relation "measure length") (auto simp: length_dropWhile_le less_Suc_eq_le)

text \<open>The reply of the suggestion call: it throws, or its text parses (\<open>parsed.playlists || []\<close>) or not.\<close>

datatype suggest_reply = SuggestFails ApiError | SuggestText "PlaylistSuggestion list option"

text \<open>
  One turn of the loop over the suggestions. \<open>newId k\<close> is the \<open>k\<close>-th identifier the run
  generates (from the clock and the random generator in the source).
\<close>

definition addSongs :: "timestamp \<Rightarrow> string \<Rightarrow> SongWithCategories list \<Rightarrow> Database \<Rightarrow> Database" where
  "addSongs now playlistId matching db =
     foldl (\<lambda>d song. addSongToPlaylist now playlistId (song_id (swc_song song)) d) db matching"

definition applySuggestion ::
  "timestamp \<Rightarrow> (nat \<Rightarrow> string) \<Rightarrow> SongWithCategories list \<Rightarrow> Database \<times> nat \<Rightarrow>
   PlaylistSuggestion \<Rightarrow> Database \<times> nat" where
  "applySuggestion now newId songsWithCategories st suggestion =
     (let db = fst st; k = snd st;
          matchingSongs = filter (songMatches (sg_filters suggestion)) songsWithCategories
      in if matchingSongs \<noteq> [] then
           (case getPlaylistByName db (sg_name suggestion) of
              Some existingPlaylist \<Rightarrow>
                (addSongs now (pl_id existingPlaylist) matchingSongs
                   (clearPlaylistSongs (pl_id existingPlaylist) db), k)
            | None \<Rightarrow>
                (let playlistId = newId k;
                     db1 = insertPlaylist now
                             \<lparr>npl_id = playlistId, npl_name = sg_name suggestion,
                              npl_youtube_playlist_id = None,
                              npl_category_type = ''ai_group'',
                              npl_category_value = underscored (toLowerCase (sg_name suggestion))\<rparr>
                             db
                 in (addSongs now playlistId matchingSongs db1, Suc k)))
         else (db, k))"

definition handleCreateCommand ::
  "timestamp \<Rightarrow> (nat \<Rightarrow> string) \<Rightarrow> (string list \<Rightarrow> string list \<Rightarrow> string list \<Rightarrow> suggest_reply) \<Rightarrow>
   Database \<Rightarrow> Database" where
  "handleCreateCommand now newId suggestPlaylists db =
     (let songs = filter song_ai_processed (getAllSongs db)
      in if songs = [] then db
         else
           (let songsWithCategories = map (withCategories db) songs;
                allMoods = inInsertionOrder (concat (map moods songsWithCategories));
                allGenres = inInsertionOrder (concat (map genres songsWithCategories));
                energyLevels = inInsertionOrder
                                 (concat (map (\<lambda>s. case energy s of Some e \<Rightarrow> [e] | None \<Rightarrow> [])
                                              songsWithCategories))
            in case suggestPlaylists allMoods allGenres energyLevels of
                 SuggestText (Some suggestions) \<Rightarrow>
                   fst (foldl (applySuggestion now newId songsWithCategories) (db, 0) suggestions)
               | _ \<Rightarrow> db))"

section \<open>Publishing: handlePushCommand (cli/push.ts)\<close>










section \<open>The command line: handleCommand (index.ts) and \<open>sources add\<close> (cli/sources.ts)\<close>

text \<open>\<open>s.split(/\s+/)\<close>: the pieces between the maximal runs of white space.\<close>

function splitSpacesFrom :: "string \<Rightarrow> string \<Rightarrow> string list" where
  "splitSpacesFrom acc [] = [acc]"
| "splitSpacesFrom acc (c # cs) =
     (if isSpace c then acc # splitSpacesFrom [] (dropWhile isSpace cs)
      else splitSpacesFrom (acc @ [c]) cs)"
  by pat_completeness auto
termination
  by (relation "measure (\<lambda>(acc, s). length s)") (auto simp: length_dropWhile_le less_Suc_eq_le)

definition splitSpaces :: "string \<Rightarrow> string list" where
  "splitSpaces s = splitSpacesFrom [] s"

text \<open>\<open>s.replace(/^\//, '')\<close>\<close>

definition dropLeadingSlash :: "string \<Rightarrow> string" where
  "dropLeadingSlash s = (case s of c # cs \<Rightarrow> if c = CHR ''/'' then cs else s | [] \<Rightarrow> [])"

text \<open>The first lines of \<open>handleCommand\<close>: the command word and its arguments.\<close>

definition parseCommand :: "string \<Rightarrow> string \<times> string list" where
  "parseCommand input =
     (let trimmed = dropLeadingSlash (toLowerCase (trim input));
          parts = splitSpaces trimmed
      in (case parts of cmd # args \<Rightarrow> (cmd, args) | [] \<Rightarrow> ([], [])))"

text \<open>\<open>url.match(/[?&]list=([^&]+)/)\<close>: the leftmost match and its group.\<close>

fun extractPlaylistId :: "string \<Rightarrow> string option" where
  "extractPlaylistId [] = None"
| "extractPlaylistId (c # cs) =
     (if (c = CHR ''?'' \<or> c = CHR ''&'') \<and> startsWith cs ''list=''
         \<and> takeWhile (\<lambda>x. x \<noteq> CHR ''&'') (drop 5 cs) \<noteq> []
      then Some (takeWhile (\<lambda>x. x \<noteq> CHR ''&'') (drop 5 cs))
      else extractPlaylistId cs)"

datatype add_outcome = Usage | InvalidUrl | AlreadyAdded Source | AddedSource int

text \<open>The \<open>add\<close> branch of \<open>handleSourcesCommand\<close>; \<open>rest\<close> are the arguments after \<open>add\<close>.\<close>

definition sourcesAdd :: "timestamp \<Rightarrow> Database \<Rightarrow> string list \<Rightarrow> add_outcome \<times> Database" where
  "sourcesAdd now db rest =
     (let input = trim (join '' '' rest)
      in if input = [] then (Usage, db)
         else
           (case extractPlaylistId input of
              None \<Rightarrow> (InvalidUrl, db)
            | Some playlistId \<Rightarrow>
                (case getSourceByYoutubeId db playlistId of
                   Some existing \<Rightarrow> (AlreadyAdded existing, db)
                 | None \<Rightarrow>
                     (let (i, db') = insertSource now
                                       \<lparr>ns_type = PlaylistSource,
                                        ns_name = ''Playlist '' @ take 8 playlistId @ ''...'',
                                        ns_youtube_id = Some playlistId\<rparr> db
                      in (AddedSource i, db')))))"

text \<open>
  An input line that \<open>handleCommand\<close> routes to \<open>handleSourcesCommand\<close> and that reaches
  its \<open>add\<close> branch; \<open>None\<close> for every other line.
\<close>

definition handleSourcesAdd :: "timestamp \<Rightarrow> Database \<Rightarrow> string \<Rightarrow> (add_outcome \<times> Database) option" where
  "handleSourcesAdd now db input =
     (case parseCommand input of
        (cmd, subcommand # rest) \<Rightarrow>
          if cmd = ''sources'' \<and> subcommand = ''add'' then Some (sourcesAdd now db rest) else None
      | (cmd, []) \<Rightarrow> None)"

section \<open>Artist extraction as the specification words it\<close>

text \<open>
  \<open>cutAtFirst sep s\<close> cuts \<open>s\<close> at the first occurrence of \<open>sep\<close>: the text before it
  and the rest after it. A separator yields an artist when it occurs and the text before its
  first occurrence is not empty. \<open>artistBySeparator\<close> takes the first separator of the
  list that yields an artist, and the channel name when none does; the artist is stripped
  of the \<open>- Topic\<close> suffix in both cases.
\<close>

fun cutAtFirst :: "string \<Rightarrow> string \<Rightarrow> (string \<times> string) option" where
  "cutAtFirst sep [] = (if sep = [] then Some ([], []) else None)"
| "cutAtFirst sep (c # cs) =
     (if startsWith (c # cs) sep then Some ([], drop (length sep) (c # cs))
      else map_option (\<lambda>(pre, rest). (c # pre, rest)) (cutAtFirst sep cs))"



section \<open>The values an item holds, and the classified items of the library\<close>

text \<open>
  \<open>valuesOf db i ty\<close> are the values of the category rows of type \<open>ty\<close> that item \<open>i\<close>
  holds. \<open>librarySongs db\<close> are the classified items with their categories, as
  \<open>handleCreateCommand\<close> builds them before it asks for suggestions.
\<close>

definition valuesOf :: "Database \<Rightarrow> string \<Rightarrow> string \<Rightarrow> string set" where
  "valuesOf db i ty =
     set (map cat_value (filter (\<lambda>c. cat_type c = ty) (getCategoriesBySongId db i)))"

definition librarySongs :: "Database \<Rightarrow> SongWithCategories list" where
  "librarySongs db = map (withCategories db) (filter song_ai_processed (getAllSongs db))"

section \<open>Classification: the calls of a run and what they leave\<close>


fun replies ::
  "('g \<Rightarrow> Song list \<Rightarrow> AnalysisType \<Rightarrow> ai_reply \<times> 'g) \<Rightarrow> AnalysisType \<Rightarrow> Song list list \<Rightarrow> 'g \<Rightarrow>
   (Song list \<times> ai_reply) list" where
  "replies ask ty [] g = []"
| "replies ask ty (batch # rest) g =
     (batch, fst (ask g batch ty)) # replies ask ty rest (snd (ask g batch ty))"



section \<open>Publishing: what the log of a run must show\<close>



section \<open>Example data\<close>

definition emptyDb :: Database where
  "emptyDb = \<lparr>sources = [], songs = [], categories = [], playlists = [], playlist_songs = [],
              seq_sources = 0, seq_categories = 0\<rparr>"

definition likedSource :: Source where
  "likedSource = \<lparr>src_id = 1, src_type = Liked, src_name = ''Liked Music'',
                  src_youtube_id = None, src_last_synced = None, src_created_at = 1\<rparr>"

definition oneSourceDb :: Database where
  "oneSourceDb = emptyDb\<lparr>sources := [likedSource], seq_sources := 1\<rparr>"

definition musicCatalog :: Catalog where
  "musicCatalog =
     \<lparr>likedVideos = Inr [\<lparr>rv_id = ''v1'', rv_title = Some ''Daft Punk - Get Lucky'',
                            rv_channelTitle = Some ''Daft Punk - Topic''\<rparr>,
                          \<lparr>rv_id = ''v2'', rv_title = Some ''My Podcast Episode 1'',
                            rv_channelTitle = Some ''Some Channel''\<rparr>],
      playlistVideos = (\<lambda>p. Inr [])\<rparr>"

definition podcastCatalog :: Catalog where
  "podcastCatalog =
     \<lparr>likedVideos = Inr [\<lparr>rv_id = ''v2'', rv_title = Some ''My Podcast Episode 1'',
                            rv_channelTitle = Some ''Some Channel''\<rparr>],
      playlistVideos = (\<lambda>p. Inr [])\<rparr>"

definition syncedDb :: Database where
  "syncedDb =
     oneSourceDb\<lparr>sources := [likedSource\<lparr>src_last_synced := Some 5\<rparr>],
                 songs := [\<lparr>song_id = ''v1'', song_title = ''Get Lucky'',
                            song_artist = Some ''Daft Punk'', song_source_id = Some 1,
                            song_added_at = 5, song_ai_processed = False\<rparr>]\<rparr>"

definition happySong :: Song where
  "happySong = \<lparr>song_id = ''v1'', song_title = ''Get Lucky'', song_artist = Some ''Daft Punk'',
                song_source_id = Some 1, song_added_at = 5, song_ai_processed = True\<rparr>"

definition mkCategory :: "int \<Rightarrow> string \<Rightarrow> string \<Rightarrow> string \<Rightarrow> Category" where
  "mkCategory i s ty v =
     \<lparr>cat_id = i, cat_song_id = s, cat_type = ty, cat_value = v, cat_confidence = 1,
      cat_created_at = 6\<rparr>"

definition libraryDb :: Database where
  "libraryDb =
     oneSourceDb\<lparr>songs := [happySong],
                 categories := [mkCategory 1 ''v1'' ''mood'' ''happy'',
                                mkCategory 2 ''v1'' ''mood'' ''calm'',
                                mkCategory 3 ''v1'' ''genre'' ''pop''],
                 seq_categories := 3\<rparr>"

text \<open>The same library after two energy rows were written for the song, \<open>low\<close> first.\<close>

definition twoEnergiesDb :: Database where
  "twoEnergiesDb =
     libraryDb\<lparr>categories := categories libraryDb @
                     [mkCategory 4 ''v1'' ''energy'' ''low'',
                      mkCategory 5 ''v1'' ''energy'' ''high''],
               seq_categories := 5\<rparr>"

definition moodFilter :: "string list \<Rightarrow> Filters" where
  "moodFilter ms = \<lparr>f_mood = Some ms, f_genre = None, f_energy = None\<rparr>"

definition energyFilter :: "string list \<Rightarrow> Filters" where
  "energyFilter es = \<lparr>f_mood = None, f_genre = None, f_energy = Some es\<rparr>"

definition sadSuggestion :: PlaylistSuggestion where
  "sadSuggestion = \<lparr>sg_name = ''Sad'', sg_description = ''Songs for rainy days'',
                    sg_filters = moodFilter [''sad'', ''angry'']\<rparr>"

text \<open>A suggestion service that proposes the one playlist \<open>Sad\<close>, whatever the library holds.\<close>

definition sadOnly :: "string list \<Rightarrow> string list \<Rightarrow> string list \<Rightarrow> suggest_reply" where
  "sadOnly ms gs es = SuggestText (Some [sadSuggestion])"

definition numberedId :: "nat \<Rightarrow> string" where
  "numberedId k = ''pl_'' @ replicate (Suc k) (CHR ''x'')"















definition discoveredSource :: Source where
  "discoveredSource = \<lparr>src_id = 2, src_type = PlaylistSource, src_name = ''Road Trip'',
                       src_youtube_id = Some ''PLAbC123'', src_last_synced = None,
                       src_created_at = 2\<rparr>"

definition discoveredDb :: Database where
  "discoveredDb = oneSourceDb\<lparr>sources := [likedSource, discoveredSource], seq_sources := 2\<rparr>"

definition playlistUrl :: string where
  "playlistUrl = ''https://music.youtube.com/playlist?list=PLAbC123''"

section \<open>Strings: splitting and joining\<close>

lemma cutAtFirst_decomp:
  "cutAtFirst sep s = Some (pre, rest) \<Longrightarrow> s = pre @ sep @ rest"
proof (induction s arbitrary: pre)
  case Nil
  then show ?case by (simp split: if_splits)
next
  case (Cons c cs)
  show ?case
  proof (cases "startsWith (c # cs) sep")
    case True
    with Cons.prems have "pre = []" "rest = drop (length sep) (c # cs)" by simp_all
    moreover from True have "take (length sep) (c # cs) = sep" by (simp add: startsWith_def)
    ultimately show ?thesis by (metis append_Nil append_take_drop_id)
  next
    case False
    with Cons.prems obtain p where "cutAtFirst sep cs = Some (p, rest)" "pre = c # p"
      by auto
    with Cons.IH show ?thesis by simp
  qed
qed

lemma cutAtFirst_first:
  "cutAtFirst sep s = Some (pre, rest) \<Longrightarrow> i < length pre \<Longrightarrow> \<not> startsWith (drop i s) sep"
proof (induction s arbitrary: pre i)
  case Nil
  then show ?case by (simp split: if_splits)
next
  case (Cons c cs)
  show ?case
  proof (cases "startsWith (c # cs) sep")
    case True
    with Cons.prems show ?thesis by simp
  next
    case False
    with Cons.prems obtain p where p: "cutAtFirst sep cs = Some (p, rest)" "pre = c # p"
      by auto
    show ?thesis
    proof (cases i)
      case 0
      with False show ?thesis by simp
    next
      case (Suc j)
      with Cons.prems p have "j < length p" by simp
      with Cons.IH p Suc show ?thesis by simp
    qed
  qed
qed


lemma splitFrom_no_sep: "\<not> includesStr s sep \<Longrightarrow> splitFrom sep acc s = [acc @ s]"
  by (induction s arbitrary: acc) auto






lemma cleanArtistName_strips:
  "toLowerCase t = '' - topic'' \<Longrightarrow> cleanArtistName (a @ t) = trim a"
proof -
  assume t: "toLowerCase t = '' - topic''"
  then have "length (toLowerCase t) = 8" by simp
  then have "length t = 8" by (simp add: toLowerCase_def)
  with t show ?thesis by (simp add: cleanArtistName_def)
qed

section \<open>Artist extraction\<close>




section \<open>Store\<close>

lemma insertSong_present:
  "nsong_id s \<in> set (map song_id (songs db)) \<Longrightarrow> insertSong now s db = db"
  by (simp add: insertSong_def)

lemma insertSong_ids:
  "set (map song_id (songs (insertSong now s db))) = insert (nsong_id s) (set (map song_id (songs db)))"
  by (auto simp: insertSong_def)

lemma insertSong_sources: "sources (insertSong now s db) = sources db"
  by (simp add: insertSong_def)

lemma insertSong_distinct:
  "distinct (map song_id (songs db)) \<Longrightarrow> distinct (map song_id (songs (insertSong now s db)))"
  by (auto simp: insertSong_def)

lemma insertSongs_ids:
  "set (map song_id (songs (insertSongs now rows db))) =
   set (map nsong_id rows) \<union> set (map song_id (songs db))"
proof (induction rows arbitrary: db)
  case Nil
  then show ?case by (simp add: insertSongs_def)
next
  case (Cons r rows)
  have "insertSongs now (r # rows) db = insertSongs now rows (insertSong now r db)"
    by (simp add: insertSongs_def)
  with Cons[of "insertSong now r db"] show ?case
    by (simp only: insertSong_ids) auto
qed

lemma insertSongs_sources: "sources (insertSongs now rows db) = sources db"
proof (induction rows arbitrary: db)
  case Nil
  then show ?case by (simp add: insertSongs_def)
next
  case (Cons r rows)
  have "insertSongs now (r # rows) db = insertSongs now rows (insertSong now r db)"
    by (simp add: insertSongs_def)
  with Cons[of "insertSong now r db"] show ?case by (simp add: insertSong_sources)
qed

lemma insertSongs_distinct:
  "distinct (map song_id (songs db)) \<Longrightarrow>
   distinct (map song_id (songs (insertSongs now rows db)))"
proof (induction rows arbitrary: db)
  case Nil
  then show ?case by (simp add: insertSongs_def)
next
  case (Cons r rows)
  have "insertSongs now (r # rows) db = insertSongs now rows (insertSong now r db)"
    by (simp add: insertSongs_def)
  with Cons.IH[of "insertSong now r db"] Cons.prems show ?case
    by (simp add: insertSong_distinct)
qed

lemma insertSongs_present:
  "set (map nsong_id rows) \<subseteq> set (map song_id (songs db)) \<Longrightarrow> insertSongs now rows db = db"
proof (induction rows)
  case Nil
  then show ?case by (simp add: insertSongs_def)
next
  case (Cons r rows)
  then have "insertSong now r db = db" by (simp add: insertSong_present)
  moreover have "insertSongs now (r # rows) db = insertSongs now rows (insertSong now r db)"
    by (simp add: insertSongs_def)
  ultimately show ?case using Cons by simp
qed

lemma find_touch:
  "find (\<lambda>s. src_id s = i) xs = Some s \<Longrightarrow>
   find (\<lambda>s. src_id s = i)
        (map (\<lambda>s. if src_id s = i then s\<lparr>src_last_synced := t\<rparr> else s) xs)
     = Some (s\<lparr>src_last_synced := t\<rparr>)"
  by (induction xs) (auto split: if_splits)

lemma getSourceById_touched:
  "getSourceById db i = Some s \<Longrightarrow>
   getSourceById (updateSourceSyncTime now i db) i = Some (s\<lparr>src_last_synced := Some now\<rparr>)"
  by (simp add: getSourceById_def updateSourceSyncTime_def find_touch)

lemma updateSourceSyncTime_songs: "songs (updateSourceSyncTime now i db) = songs db"
  by (simp add: updateSourceSyncTime_def)

lemma getSourceById_insertSongs:
  "getSourceById (insertSongs now rows db) i = getSourceById db i"
  by (simp add: getSourceById_def insertSongs_sources)

section \<open>Reset\<close>

text \<open>
  C8. After \<open>resetData\<close> the songs, categories, playlists and playlist-membership
  relations are empty; the source rows are the same rows in the same order, with identifier,
  type, name, remote identifier and creation time unchanged and the last-synced time unset.
\<close>

theorem C8_reset_keeps_sources:
  "songs (resetData db) = [] \<and> categories (resetData db) = []
   \<and> playlists (resetData db) = [] \<and> playlist_songs (resetData db) = []
   \<and> map src_id (sources (resetData db)) = map src_id (sources db)
   \<and> map src_type (sources (resetData db)) = map src_type (sources db)
   \<and> map src_name (sources (resetData db)) = map src_name (sources db)
   \<and> map src_youtube_id (sources (resetData db)) = map src_youtube_id (sources db)
   \<and> map src_created_at (sources (resetData db)) = map src_created_at (sources db)
   \<and> map src_last_synced (sources (resetData db)) = replicate (length (sources db)) None"
  by (simp add: resetData_def comp_def map_replicate_const)

section \<open>Ingestion\<close>

lemma syncSource_fetched:
  assumes "getSourceById db sourceId = Some source"
    and "(if src_type source = Liked then fetchLikedVideos yt
          else fetchPlaylistVideos yt (src_youtube_id source)) = Inr videos"
  shows "syncSource now yt sourceId db =
           (if map (toNewSong sourceId) (filterMusicVideos videos) \<noteq> []
            then Inr (updateSourceSyncTime now sourceId
                       (insertSongs now (map (toNewSong sourceId) (filterMusicVideos videos)) db))
            else Inr db)"
proof (cases "src_type source = Liked")
  case True
  with assms show ?thesis by (simp add: syncSource_def Let_def)
next
  case False
  with assms show ?thesis by (simp add: syncSource_def Let_def)
qed

lemma syncSource_Inr:
  assumes "syncSource now yt sourceId db = Inr db1"
  shows "\<exists>source videos. getSourceById db sourceId = Some source
           \<and> (if src_type source = Liked then fetchLikedVideos yt
                else fetchPlaylistVideos yt (src_youtube_id source)) = Inr videos"
proof -
  from assms obtain source where src: "getSourceById db sourceId = Some source"
    by (auto simp: syncSource_def split: option.splits)
  with assms show ?thesis
    by (cases "src_type source = Liked") (auto simp: syncSource_def split: sum.splits)
qed

text \<open>
  C6. When a sync of a source has gone through, a second sync of the same source against
  the same upstream data goes through as well and leaves the song relation as the first one
  left it, row for row (so the same items and the same count): every identifier is already
  present and nothing is inserted. Identifiers that were pairwise different before a sync
  are pairwise different after it.
\<close>

theorem C6_sync_twice_same_songs:
  assumes "syncSource now yt sourceId db = Inr db1"
  shows "(\<exists>db2. syncSource now' yt sourceId db1 = Inr db2 \<and> songs db2 = songs db1
              \<and> length (songs db2) = length (songs db1))
         \<and> (distinct (map song_id (songs db)) \<longrightarrow> distinct (map song_id (songs db1)))"
proof -
  from syncSource_Inr[OF assms] obtain source videos
    where src: "getSourceById db sourceId = Some source"
      and vs: "(if src_type source = Liked then fetchLikedVideos yt
                else fetchPlaylistVideos yt (src_youtube_id source)) = Inr videos"
    by blast
  define rows where "rows = map (toNewSong sourceId) (filterMusicVideos videos)"
  note first = syncSource_fetched[OF src vs, of now, folded rows_def]
  show ?thesis
  proof (cases "rows = []")
    case True
    with assms first have "db1 = db" by simp
    with syncSource_fetched[OF src vs, of now', folded rows_def] True show ?thesis by simp
  next
    case False
    with assms first have db1: "db1 = updateSourceSyncTime now sourceId (insertSongs now rows db)"
      by simp
    have src1: "getSourceById db1 sourceId = Some (source\<lparr>src_last_synced := Some now\<rparr>)"
      by (simp add: db1 getSourceById_touched getSourceById_insertSongs src)
    have vs1: "(if src_type (source\<lparr>src_last_synced := Some now\<rparr>) = Liked then fetchLikedVideos yt
                else fetchPlaylistVideos yt (src_youtube_id (source\<lparr>src_last_synced := Some now\<rparr>)))
               = Inr videos"
      using vs by (simp split: if_splits)
    have "set (map nsong_id rows) \<subseteq> set (map song_id (songs db1))"
      using insertSongs_ids[of now rows db] by (auto simp: db1 updateSourceSyncTime_songs)
    then have noop: "insertSongs now' rows db1 = db1"
      by (rule insertSongs_present)
    have "syncSource now' yt sourceId db1 = Inr (updateSourceSyncTime now' sourceId db1)"
      using syncSource_fetched[OF src1 vs1, of now', folded rows_def] False noop by simp
    moreover have "distinct (map song_id (songs db)) \<longrightarrow> distinct (map song_id (songs db1))"
      by (simp add: db1 updateSourceSyncTime_songs insertSongs_distinct)
    ultimately show ?thesis by (simp add: updateSourceSyncTime_songs)
  qed
qed
lemma example_sync: "syncSource 5 musicCatalog 1 oneSourceDb = Inr syncedDb"
  by code_simp

theorem C6_sync_twice_same_songs_witness:
  "syncSource 5 musicCatalog 1 oneSourceDb = Inr syncedDb
   \<and> (\<exists>db2. syncSource 9 musicCatalog 1 syncedDb = Inr db2 \<and> songs db2 = songs syncedDb
             \<and> length (songs db2) = length (songs syncedDb))
   \<and> distinct (map song_id (songs syncedDb))"
proof -
  have d: "distinct (map song_id (songs oneSourceDb))"
    by (simp add: oneSourceDb_def emptyDb_def)
  from C6_sync_twice_same_songs[OF example_sync, of 9] d example_sync show ?thesis by blast
qed

text \<open>
  C7 as stated fails: a sync of an existing source whose upstream listing holds only
  non-music content goes through and leaves the source never synced.
\<close>

theorem C7_counterexample:
  "syncSource 5 podcastCatalog 1 oneSourceDb = Inr oneSourceDb
   \<and> map src_last_synced (sources oneSourceDb) = [None]
   \<and> getSourceById oneSourceDb 1 = Some likedSource
   \<and> fetchLikedVideos podcastCatalog
       = Inr [\<lparr>vid_id = ''v2'', vid_title = ''My Podcast Episode 1'', vid_artist = ''Some Channel'',
               vid_channelTitle = ''Some Channel''\<rparr>]"
  by code_simp

text \<open>
  C7, amended. For a sync of an existing source whose upstream listing arrives: when at
  least one item survives the non-music filter, the survivors are upserted and then the
  last-synced time of the source is set, so every survivor is in the song relation and the
  source carries the time of the run; when no item survives, the store is left as it was
  and the last-synced time is not touched.
\<close>

theorem C7_sync_touches_when_songs:
  assumes "getSourceById db sourceId = Some source"
    and "(if src_type source = Liked then fetchLikedVideos yt
          else fetchPlaylistVideos yt (src_youtube_id source)) = Inr videos"
  shows "(filterMusicVideos videos \<noteq> [] \<longrightarrow>
            syncSource now yt sourceId db
              = Inr (updateSourceSyncTime now sourceId
                      (insertSongs now (map (toNewSong sourceId) (filterMusicVideos videos)) db))
            \<and> set (map vid_id (filterMusicVideos videos))
                 \<subseteq> set (map song_id (songs (updateSourceSyncTime now sourceId
                      (insertSongs now (map (toNewSong sourceId) (filterMusicVideos videos)) db))))
            \<and> map_option src_last_synced
                 (getSourceById (updateSourceSyncTime now sourceId
                      (insertSongs now (map (toNewSong sourceId) (filterMusicVideos videos)) db))
                    sourceId) = Some (Some now))
         \<and> (filterMusicVideos videos = [] \<longrightarrow> syncSource now yt sourceId db = Inr db)"
proof -
  let ?rows = "map (toNewSong sourceId) (filterMusicVideos videos)"
  have "set (map vid_id (filterMusicVideos videos)) = set (map nsong_id ?rows)"
    by (simp add: toNewSong_def comp_def)
  then have "set (map vid_id (filterMusicVideos videos))
               \<subseteq> set (map song_id (songs (updateSourceSyncTime now sourceId (insertSongs now ?rows db))))"
    using insertSongs_ids[of now ?rows db] by (simp only: updateSourceSyncTime_songs) blast
  moreover have "map_option src_last_synced
                  (getSourceById (updateSourceSyncTime now sourceId (insertSongs now ?rows db)) sourceId)
                 = Some (Some now)"
    by (simp add: getSourceById_touched getSourceById_insertSongs assms(1))
  ultimately show ?thesis
    using syncSource_fetched[OF assms, of now] by simp
qed

theorem C7_sync_touches_when_songs_witness:
  "getSourceById oneSourceDb 1 = Some likedSource
   \<and> fetchLikedVideos musicCatalog
       = Inr [\<lparr>vid_id = ''v1'', vid_title = ''Get Lucky'', vid_artist = ''Daft Punk'',
               vid_channelTitle = ''Daft Punk - Topic''\<rparr>,
              \<lparr>vid_id = ''v2'', vid_title = ''My Podcast Episode 1'', vid_artist = ''Some Channel'',
               vid_channelTitle = ''Some Channel''\<rparr>]
   \<and> map_option src_last_synced
        (getSourceById (updateSourceSyncTime 5 1
           (insertSongs 5 (map (toNewSong 1) (filterMusicVideos
              [\<lparr>vid_id = ''v1'', vid_title = ''Get Lucky'', vid_artist = ''Daft Punk'',
                vid_channelTitle = ''Daft Punk - Topic''\<rparr>,
               \<lparr>vid_id = ''v2'', vid_title = ''My Podcast Episode 1'', vid_artist = ''Some Channel'',
                vid_channelTitle = ''Some Channel''\<rparr>])) oneSourceDb)) 1) = Some (Some 5)"
proof -
  have s: "getSourceById oneSourceDb 1 = Some likedSource"
    by code_simp
  have f: "(if src_type likedSource = Liked then fetchLikedVideos musicCatalog
            else fetchPlaylistVideos musicCatalog (src_youtube_id likedSource))
       = Inr [\<lparr>vid_id = ''v1'', vid_title = ''Get Lucky'', vid_artist = ''Daft Punk'',
               vid_channelTitle = ''Daft Punk - Topic''\<rparr>,
              \<lparr>vid_id = ''v2'', vid_title = ''My Podcast Episode 1'', vid_artist = ''Some Channel'',
               vid_channelTitle = ''Some Channel''\<rparr>]"
    by code_simp
  have m: "filterMusicVideos
              [\<lparr>vid_id = ''v1'', vid_title = ''Get Lucky'', vid_artist = ''Daft Punk'',
                vid_channelTitle = ''Daft Punk - Topic''\<rparr>,
               \<lparr>vid_id = ''v2'', vid_title = ''My Podcast Episode 1'', vid_artist = ''Some Channel'',
                vid_channelTitle = ''Some Channel''\<rparr>] \<noteq> []"
    by code_simp
  from C7_sync_touches_when_songs[OF s f, of 5] m s f show ?thesis
    by (simp add: likedSource_def)
qed

section \<open>Synthesis\<close>






text \<open>
  Where an item holds several energy rows, the first one alone is its energy value: with
  \<open>low\<close> written before \<open>high\<close>, a filter on \<open>high\<close> does not take the item.
\<close>

lemma first_energy_row_counts:
  "valuesOf twoEnergiesDb ''v1'' ''energy'' = {''low'', ''high''}
   \<and> energy (withCategories twoEnergiesDb happySong) = Some ''low''
   \<and> \<not> songMatches (energyFilter [''high'']) (withCategories twoEnergiesDb happySong)
   \<and> songMatches (energyFilter [''low'']) (withCategories twoEnergiesDb happySong)"
  by code_simp

lemma addSongs_playlists: "playlists (addSongs now p matching db) = playlists db"
proof (induction matching arbitrary: db)
  case Nil
  then show ?case by (simp add: addSongs_def)
next
  case (Cons s matching)
  have "addSongs now p (s # matching) db
          = addSongs now p matching (addSongToPlaylist now p (song_id (swc_song s)) db)"
    by (simp add: addSongs_def)
  with Cons[of "addSongToPlaylist now p (song_id (swc_song s)) db"] show ?case
    by (simp add: addSongToPlaylist_def)
qed

lemma applySuggestion_no_match:
  "filter (songMatches (sg_filters sg)) swcs = [] \<Longrightarrow> applySuggestion now newId swcs st sg = st"
  by (simp add: applySuggestion_def Let_def)

lemma applySuggestion_playlists:
  "set (playlists (fst (applySuggestion now newId swcs st sg)))
     \<subseteq> set (playlists (fst st)) \<union> {p. pl_name p = sg_name sg}"
proof (cases "filter (songMatches (sg_filters sg)) swcs = []")
  case True
  then show ?thesis by (simp add: applySuggestion_no_match)
next
  case False
  show ?thesis
  proof (cases "getPlaylistByName (fst st) (sg_name sg)")
    case None
    with False show ?thesis
      by (auto simp: applySuggestion_def Let_def addSongs_playlists insertPlaylist_def)
  next
    case (Some existing)
    with False show ?thesis
      by (simp add: applySuggestion_def Let_def addSongs_playlists clearPlaylistSongs_def)
  qed
qed

lemma applySuggestion_other_name:
  assumes "getPlaylistByName (fst st) n = None" and "sg_name sg \<noteq> n"
  shows "getPlaylistByName (fst (applySuggestion now newId swcs st sg)) n = None"
proof -
  from assms(1) have "\<forall>p \<in> set (playlists (fst st)). pl_name p \<noteq> n"
    by (auto simp: getPlaylistByName_def find_None_iff)
  with assms(2) applySuggestion_playlists[of now newId swcs st sg]
  have "\<forall>p \<in> set (playlists (fst (applySuggestion now newId swcs st sg))). pl_name p \<noteq> n"
    by auto
  then show ?thesis by (auto simp: getPlaylistByName_def find_None_iff)
qed

lemma suggestions_keep_absent:
  assumes "getPlaylistByName (fst st) n = None"
    and "\<forall>sg \<in> set suggestions. sg_name sg = n \<longrightarrow> filter (songMatches (sg_filters sg)) swcs = []"
  shows "getPlaylistByName (fst (foldl (applySuggestion now newId swcs) st suggestions)) n = None"
  using assms
proof (induction suggestions arbitrary: st)
  case Nil
  then show ?case by simp
next
  case (Cons sg suggestions)
  have "getPlaylistByName (fst (applySuggestion now newId swcs st sg)) n = None"
  proof (cases "sg_name sg = n")
    case True
    with Cons.prems show ?thesis by (simp add: applySuggestion_no_match)
  next
    case False
    with Cons.prems show ?thesis by (simp add: applySuggestion_other_name)
  qed
  with Cons show ?case by simp
qed

text \<open>
  C3 as stated fails: the suggestion \<open>Sad\<close> matches no classified item of the library,
  and after the command no playlist of that name exists; the store is as it was.
\<close>

theorem C3_counterexample:
  "filter (songMatches (sg_filters sadSuggestion)) (librarySongs libraryDb) = []
   \<and> handleCreateCommand 9 numberedId sadOnly libraryDb
       = libraryDb
   \<and> getPlaylistByName libraryDb ''Sad'' = None"
  by code_simp

text \<open>
  C3, amended. A suggestion whose filter matches no classified item changes nothing: no
  playlist row is created for it, and a playlist that already bears its name keeps its row
  and its members. So when no playlist named \<open>n\<close> exists and every suggestion named
  \<open>n\<close> matches nothing, none exists after the command.
\<close>

theorem C3_unmatched_suggestion_changes_nothing:
  "(filter (songMatches (sg_filters sg)) swcs = [] \<longrightarrow>
      applySuggestion now newId swcs st sg = st)
   \<and> (getPlaylistByName db n = None
      \<and> (\<forall>ms gs es suggestions. suggestPlaylists ms gs es = SuggestText (Some suggestions) \<longrightarrow>
            (\<forall>s \<in> set suggestions. sg_name s = n \<longrightarrow>
               filter (songMatches (sg_filters s)) (librarySongs db) = []))
      \<longrightarrow> getPlaylistByName (handleCreateCommand now newId suggestPlaylists db) n = None)"
proof (intro conjI impI)
  assume "filter (songMatches (sg_filters sg)) swcs = []"
  then show "applySuggestion now newId swcs st sg = st" by (rule applySuggestion_no_match)
next
  assume a: "getPlaylistByName db n = None
      \<and> (\<forall>ms gs es suggestions. suggestPlaylists ms gs es = SuggestText (Some suggestions) \<longrightarrow>
            (\<forall>s \<in> set suggestions. sg_name s = n \<longrightarrow>
               filter (songMatches (sg_filters s)) (librarySongs db) = []))"
  have "\<And>ms gs es suggestions. suggestPlaylists ms gs es = SuggestText (Some suggestions) \<Longrightarrow>
          getPlaylistByName
            (fst (foldl (applySuggestion now newId (librarySongs db)) (db, 0) suggestions)) n = None"
    using a suggestions_keep_absent[of "(db, 0)" n _ "librarySongs db" now newId] by simp
  with a show "getPlaylistByName (handleCreateCommand now newId suggestPlaylists db) n = None"
    by (auto simp: handleCreateCommand_def Let_def librarySongs_def
        split: suggest_reply.splits option.splits)
qed

theorem C3_unmatched_suggestion_changes_nothing_witness:
  "filter (songMatches (sg_filters sadSuggestion)) (librarySongs libraryDb) = []
   \<and> applySuggestion 9 numberedId (librarySongs libraryDb) (libraryDb, 0) sadSuggestion
       = (libraryDb, 0)
   \<and> getPlaylistByName libraryDb ''Sad'' = None
   \<and> getPlaylistByName
        (handleCreateCommand 9 numberedId sadOnly libraryDb)
        ''Sad'' = None"
proof -
  have m: "filter (songMatches (sg_filters sadSuggestion)) (librarySongs libraryDb) = []"
    by code_simp
  have g: "getPlaylistByName libraryDb ''Sad'' = None"
    by code_simp
  from m have h: "\<forall>ms gs es suggestions.
          sadOnly ms gs es = SuggestText (Some suggestions) \<longrightarrow>
            (\<forall>s \<in> set suggestions. sg_name s = ''Sad'' \<longrightarrow>
               filter (songMatches (sg_filters s)) (librarySongs libraryDb) = [])"
    by (auto simp: sadOnly_def)
  from C3_unmatched_suggestion_changes_nothing
         [of sadSuggestion "librarySongs libraryDb" 9 numberedId "(libraryDb, 0)" libraryDb "''Sad''"
             sadOnly]
       m g h
  show ?thesis by blast
qed

section \<open>Classification\<close>


lemma replies_batches: "map fst (replies ask ty bs g) = bs"
  by (induction bs arbitrary: g) auto

lemma processBatches_calls:
  "run_calls (processBatches now ask ty bs st) = run_calls st @ replies ask ty bs (run_ai st)"
proof (induction bs arbitrary: st)
  case Nil
  then show ?case by simp
next
  case (Cons b bs)
  obtain reply g' where a: "ask (run_ai st) b ty = (reply, g')" by (cases "ask (run_ai st) b ty")
  show ?case
  proof (cases reply)
    case (AiFails e)
    with a Cons show ?thesis by simp
  next
    case (AiText t)
    with a Cons show ?thesis by (cases t) (simp_all add: Let_def)
  qed
qed


text \<open>
  No reply ends the run: whatever the service answers, every batch of the unclassified items
  is submitted, in order.
\<close>

lemma analyze_submits_every_batch:
  "map fst (run_calls (handleAnalyzeCommand now ask g ty db))
     = batches (filter (\<lambda>s. \<not> song_ai_processed s) (getAllSongs db))"
proof (cases "filter (\<lambda>s. \<not> song_ai_processed s) (getAllSongs db) = []")
  case True
  then have "batches (filter (\<lambda>s. \<not> song_ai_processed s) (getAllSongs db)) = []"
    by (subst batches.simps) simp
  with True show ?thesis by (simp add: handleAnalyzeCommand_def Let_def)
next
  case False
  then show ?thesis
    by (simp add: handleAnalyzeCommand_def Let_def processBatches_calls replies_batches)
qed




















section \<open>Publishing\<close>







subsection \<open>The loop over the songs\<close>




subsection \<open>The loop over the playlists, case by case\<close>





subsection \<open>Three invariants of a run\<close>






section \<open>The command line\<close>

subsection \<open>Lower case\<close>

lemma lower_not_upper:
  "l \<in> set ''abcdefghijklmnopqrstuvwxyz'' \<Longrightarrow> l \<notin> set ''ABCDEFGHIJKLMNOPQRSTUVWXYZ''"
  by auto

lemma toLowerChar_cases:
  "(c \<notin> set ''ABCDEFGHIJKLMNOPQRSTUVWXYZ'' \<and> toLowerChar c = c)
   \<or> (c \<in> set ''ABCDEFGHIJKLMNOPQRSTUVWXYZ'' \<and> toLowerChar c \<in> set ''abcdefghijklmnopqrstuvwxyz'')"
proof (cases "map_of (zip ''ABCDEFGHIJKLMNOPQRSTUVWXYZ'' ''abcdefghijklmnopqrstuvwxyz'') c")
  case None
  have "map fst (zip ''ABCDEFGHIJKLMNOPQRSTUVWXYZ'' ''abcdefghijklmnopqrstuvwxyz'')
          = ''ABCDEFGHIJKLMNOPQRSTUVWXYZ''"
    by (rule map_fst_zip) simp
  then have "set (map fst (zip ''ABCDEFGHIJKLMNOPQRSTUVWXYZ'' ''abcdefghijklmnopqrstuvwxyz''))
               = set ''ABCDEFGHIJKLMNOPQRSTUVWXYZ''"
    by (rule arg_cong)
  then have z: "fst ` set (zip ''ABCDEFGHIJKLMNOPQRSTUVWXYZ'' ''abcdefghijklmnopqrstuvwxyz'')
               = set ''ABCDEFGHIJKLMNOPQRSTUVWXYZ''"
    by (simp only: set_map)
  from None
  have "c \<notin> fst ` set (zip ''ABCDEFGHIJKLMNOPQRSTUVWXYZ'' ''abcdefghijklmnopqrstuvwxyz'')"
    by (rule map_of_eq_None_iff[THEN iffD1])
  then have "c \<notin> set ''ABCDEFGHIJKLMNOPQRSTUVWXYZ''"
    unfolding z .
  with None show ?thesis by (simp only: toLowerChar_def option.case) simp
next
  case (Some l)
  then have "(c, l) \<in> set (zip ''ABCDEFGHIJKLMNOPQRSTUVWXYZ'' ''abcdefghijklmnopqrstuvwxyz'')"
    by (rule map_of_SomeD)
  then have "c \<in> set ''ABCDEFGHIJKLMNOPQRSTUVWXYZ''" "l \<in> set ''abcdefghijklmnopqrstuvwxyz''"
    by (rule set_zip_leftD, rule set_zip_rightD)
  with Some show ?thesis by (simp only: toLowerChar_def option.case) simp
qed

lemma toLowerChar_idem: "toLowerChar (toLowerChar c) = toLowerChar c"
  using toLowerChar_cases[of c] toLowerChar_cases[of "toLowerChar c"] lower_not_upper by metis

lemma toLowerChar_other:
  assumes "c0 \<notin> set ''ABCDEFGHIJKLMNOPQRSTUVWXYZ''" "c0 \<notin> set ''abcdefghijklmnopqrstuvwxyz''"
  shows "toLowerChar c = c0 \<longleftrightarrow> c = c0"
  using toLowerChar_cases[of c] toLowerChar_cases[of c0] assms by metis

lemma toLowerChar_space: "isSpace (toLowerChar c) \<longleftrightarrow> isSpace c"
proof -
  have "\<And>x. isSpace x \<Longrightarrow> x \<notin> set ''ABCDEFGHIJKLMNOPQRSTUVWXYZ'' \<and> x \<notin> set ''abcdefghijklmnopqrstuvwxyz''"
    by (auto simp: isSpace_def)
  then show ?thesis using toLowerChar_cases[of c] by metis
qed

lemma toLowerCase_fixed: "\<forall>c \<in> set s. toLowerChar c = c \<Longrightarrow> toLowerCase s = s"
  by (simp add: toLowerCase_def map_idI)

lemma toLowerCase_chars: "c \<in> set (toLowerCase s) \<Longrightarrow> toLowerChar c = c"
  by (auto simp: toLowerCase_def toLowerChar_idem)

lemma toLowerCase_nospace:
  "list_all (\<lambda>c. \<not> isSpace c) (toLowerCase s) \<longleftrightarrow> list_all (\<lambda>c. \<not> isSpace c) s"
  by (simp add: toLowerCase_def list_all_iff toLowerChar_space)

subsection \<open>Splitting at white space\<close>

lemma dropWhile_head: "xs \<noteq> [] \<Longrightarrow> \<not> P (hd xs) \<Longrightarrow> dropWhile P xs = xs"
  by (cases xs) auto

lemma trim_nospace: "list_all (\<lambda>c. \<not> isSpace c) s \<Longrightarrow> trim s = s"
proof -
  assume a: "list_all (\<lambda>c. \<not> isSpace c) s"
  then have "dropWhile isSpace s = s" by (cases s) auto
  moreover from a have "dropWhile isSpace (rev s) = rev s"
    by (cases "rev s") (auto simp: list_all_iff dest: arg_cong[where f = set])
  ultimately show ?thesis by (simp add: trim_def)
qed

lemma trim_ends:
  assumes "s \<noteq> []" "\<not> isSpace (hd s)" "\<not> isSpace (last s)"
  shows "trim s = s"
proof -
  from assms have "dropWhile isSpace s = s" by (simp add: dropWhile_head)
  moreover from assms have "dropWhile isSpace (rev s) = rev s"
    by (simp add: dropWhile_head hd_rev)
  ultimately show ?thesis by (simp add: trim_def)
qed

lemma splitSpacesFrom_word:
  "list_all (\<lambda>c. \<not> isSpace c) w \<Longrightarrow> splitSpacesFrom acc (w @ rest) = splitSpacesFrom (acc @ w) rest"
  by (induction w arbitrary: acc) auto

lemma splitSpacesFrom_chars:
  "set (concat (splitSpacesFrom acc s)) \<subseteq> set acc \<union> set s"
proof (induction acc s rule: splitSpacesFrom.induct)
  case (1 acc)
  then show ?case by simp
next
  case (2 acc c cs)
  show ?case
  proof (cases "isSpace c")
    case True
    with 2 have "set (concat (splitSpacesFrom [] (dropWhile isSpace cs))) \<subseteq> set (dropWhile isSpace cs)"
      by simp
    moreover have "set (dropWhile isSpace cs) \<subseteq> set cs" by (rule set_dropWhileD[THEN subsetI])
    ultimately show ?thesis using True by auto
  next
    case False
    with 2 show ?thesis by auto
  qed
qed

subsection \<open>The identifier of a playlist URL\<close>

lemma extractPlaylistId_chars: "extractPlaylistId s = Some i \<Longrightarrow> set i \<subseteq> set s"
proof (induction s)
  case Nil
  then show ?case by simp
next
  case (Cons c cs)
  show ?case
  proof (cases "(c = CHR ''?'' \<or> c = CHR ''&'') \<and> startsWith cs ''list=''
                 \<and> takeWhile (\<lambda>x. x \<noteq> CHR ''&'') (drop 5 cs) \<noteq> []")
    case True
    with Cons.prems have "i = takeWhile (\<lambda>x. x \<noteq> CHR ''&'') (drop 5 cs)" by simp
    then have "set i \<subseteq> set (drop 5 cs)" by (auto dest: set_takeWhileD)
    also have "\<dots> \<subseteq> set cs" by (rule set_drop_subset)
    finally show ?thesis by auto
  next
    case False
    with Cons.prems have "extractPlaylistId cs = Some i" by auto
    with Cons.IH show ?thesis by auto
  qed
qed

lemma extractPlaylistId_query:
  assumes "list_all (\<lambda>c. c \<noteq> CHR ''?'' \<and> c \<noteq> CHR ''&'') pre"
    and "ident \<noteq> []" and "list_all (\<lambda>c. c \<noteq> CHR ''&'') ident"
  shows "extractPlaylistId (pre @ ''?list='' @ ident) = Some ident"
  using assms(1)
proof (induction pre)
  case Nil
  from assms(3) have tw: "takeWhile (\<lambda>x. x \<noteq> CHR ''&'') ident = ident"
    by (simp add: list_all_iff)
  from assms(2) show ?case by (simp add: startsWith_def tw)
next
  case (Cons c pre)
  then show ?case by simp
qed
subsection \<open>The dispatcher\<close>

lemma splitSpaces_lower:
  assumes "\<forall>c \<in> set s. toLowerChar c = c" and "part \<in> set (splitSpaces s)"
  shows "toLowerCase part = part"
proof -
  from assms(2) have "set part \<subseteq> set (concat (splitSpaces s))" by auto
  also have "\<dots> \<subseteq> set s"
    using splitSpacesFrom_chars[of "[]" s] by (simp add: splitSpaces_def)
  finally show ?thesis using assms(1) by (intro toLowerCase_fixed) auto
qed

lemma parseCommand_lowercase:
  assumes "parseCommand input = (cmd, args)"
  shows "toLowerCase cmd = cmd \<and> map toLowerCase args = args"
proof -
  let ?t = "dropLeadingSlash (toLowerCase (trim input))"
  have "set ?t \<subseteq> set (toLowerCase (trim input))"
    by (cases "toLowerCase (trim input)") (auto simp: dropLeadingSlash_def)
  then have fixed: "\<forall>c \<in> set ?t. toLowerChar c = c"
    by (auto dest: toLowerCase_chars)
  show ?thesis
  proof (cases "splitSpaces ?t")
    case Nil
    with assms show ?thesis by (simp add: parseCommand_def toLowerCase_def)
  next
    case (Cons c as)
    with assms have "cmd = c" "args = as" by (simp_all add: parseCommand_def)
    with Cons have "cmd \<in> set (splitSpaces ?t)" "set args \<subseteq> set (splitSpaces ?t)" by auto
    with splitSpaces_lower[OF fixed] show ?thesis by (auto intro: map_idI)
  qed
qed

lemma parseCommand_sources_add:
  assumes "u \<noteq> []" and "list_all (\<lambda>c. \<not> isSpace c) u"
  shows "parseCommand (''sources add '' @ u) = (''sources'', [''add'', toLowerCase u])"
proof -
  from assms have "\<not> isSpace (last u)" by (simp add: list_all_iff)
  with assms(1) have t: "trim (''sources add '' @ u) = ''sources add '' @ u"
    by (intro trim_ends) (simp_all add: isSpace_def)
  have l: "toLowerCase (''sources add '' @ u) = ''sources add '' @ toLowerCase u"
    by (simp add: toLowerCase_def toLowerChar_def)
  have d: "dropLeadingSlash (''sources add '' @ toLowerCase u) = ''sources add '' @ toLowerCase u"
    by (simp add: dropLeadingSlash_def)
  from assms(2) have n: "list_all (\<lambda>c. \<not> isSpace c) (toLowerCase u)"
    by (simp add: toLowerCase_nospace)
  then have dw: "dropWhile isSpace (toLowerCase u) = toLowerCase u"
    by (cases "toLowerCase u") auto
  from n have w: "\<And>acc. splitSpacesFrom acc (toLowerCase u) = [acc @ toLowerCase u]"
    using splitSpacesFrom_word[of "toLowerCase u" _ "[]"] by simp
  have s1: "splitSpacesFrom [] (''sources'' @ '' add '' @ toLowerCase u)
              = splitSpacesFrom ''sources'' ('' add '' @ toLowerCase u)"
    using splitSpacesFrom_word[of "''sources''" "[]" "'' add '' @ toLowerCase u"]
    by (simp add: isSpace_def)
  have s2: "splitSpacesFrom [] (''add'' @ '' '' @ toLowerCase u)
              = splitSpacesFrom ''add'' ('' '' @ toLowerCase u)"
    using splitSpacesFrom_word[of "''add''" "[]" "'' '' @ toLowerCase u"]
    by (simp add: isSpace_def)
  have sp: "isSpace (CHR '' '')" "\<not> isSpace (CHR ''a'')" by (simp_all add: isSpace_def)
  have "splitSpaces (''sources add '' @ toLowerCase u) = [''sources'', ''add'', toLowerCase u]"
    using s1 s2 by (simp add: splitSpaces_def sp dw w)
  with t l d show ?thesis by (simp add: parseCommand_def)
qed

lemma sourcesAdd_single:
  assumes "u \<noteq> []" and "list_all (\<lambda>c. \<not> isSpace c) u"
  shows "sourcesAdd now db [u] =
     (case extractPlaylistId u of
        None \<Rightarrow> (InvalidUrl, db)
      | Some playlistId \<Rightarrow>
          (case getSourceByYoutubeId db playlistId of
             Some existing \<Rightarrow> (AlreadyAdded existing, db)
           | None \<Rightarrow>
               (AddedSource (seq_sources db + 1),
                db\<lparr>sources := sources db @
                      [\<lparr>src_id = seq_sources db + 1, src_type = PlaylistSource,
                        src_name = ''Playlist '' @ take 8 playlistId @ ''...'',
                        src_youtube_id = Some playlistId, src_last_synced = None,
                        src_created_at = now\<rparr>],
                    seq_sources := seq_sources db + 1\<rparr>)))"
  using assms
  by (simp add: sourcesAdd_def trim_nospace insertSource_def Let_def split: option.splits)
text \<open>
  C10. The dispatcher lower-cases the whole input line before it splits it, so the command
  word and every argument are in lower case. For a URL \<open>u\<close> (non-empty, without white
  space), \<open>sources add u\<close> reaches the \<open>add\<close> branch with the lower-cased URL: the
  identifier is extracted from that, it is in lower case, the already-exists check looks
  for it, and it is what the new source row stores. For a URL that ends in
  \<open>?list=\<close> and an identifier, the stored identifier is the lower-cased identifier.
\<close>

theorem C10_sources_add_lowercases_identifier:
  assumes "u \<noteq> []" and "list_all (\<lambda>c. \<not> isSpace c) u"
  shows "parseCommand (''sources add '' @ u) = (''sources'', [''add'', toLowerCase u])
   \<and> handleSourcesAdd now db (''sources add '' @ u) =
       Some (case extractPlaylistId (toLowerCase u) of
               None \<Rightarrow> (InvalidUrl, db)
             | Some playlistId \<Rightarrow>
                 (case getSourceByYoutubeId db playlistId of
                    Some existing \<Rightarrow> (AlreadyAdded existing, db)
                  | None \<Rightarrow>
                      (AddedSource (seq_sources db + 1),
                       db\<lparr>sources := sources db @
                             [\<lparr>src_id = seq_sources db + 1, src_type = PlaylistSource,
                               src_name = ''Playlist '' @ take 8 playlistId @ ''...'',
                               src_youtube_id = Some playlistId, src_last_synced = None,
                               src_created_at = now\<rparr>],
                           seq_sources := seq_sources db + 1\<rparr>)))
   \<and> (\<forall>i. extractPlaylistId (toLowerCase u) = Some i \<longrightarrow> toLowerCase i = i)
   \<and> (\<forall>pre ident. u = pre @ ''?list='' @ ident
         \<and> list_all (\<lambda>c. c \<noteq> CHR ''?'' \<and> c \<noteq> CHR ''&'') pre
         \<and> ident \<noteq> [] \<and> list_all (\<lambda>c. c \<noteq> CHR ''&'') ident
       \<longrightarrow> extractPlaylistId u = Some ident
           \<and> extractPlaylistId (toLowerCase u) = Some (toLowerCase ident))
   \<and> (\<forall>input cmd args. parseCommand input = (cmd, args)
       \<longrightarrow> toLowerCase cmd = cmd \<and> map toLowerCase args = args)"
proof (intro conjI allI impI)
  show p: "parseCommand (''sources add '' @ u) = (''sources'', [''add'', toLowerCase u])"
    using assms by (rule parseCommand_sources_add)
  from assms have "toLowerCase u \<noteq> []" "list_all (\<lambda>c. \<not> isSpace c) (toLowerCase u)"
    by (simp_all add: toLowerCase_nospace) (simp add: toLowerCase_def)
  from sourcesAdd_single[OF this, of now db]
  show "handleSourcesAdd now db (''sources add '' @ u) =
       Some (case extractPlaylistId (toLowerCase u) of
               None \<Rightarrow> (InvalidUrl, db)
             | Some playlistId \<Rightarrow>
                 (case getSourceByYoutubeId db playlistId of
                    Some existing \<Rightarrow> (AlreadyAdded existing, db)
                  | None \<Rightarrow>
                      (AddedSource (seq_sources db + 1),
                       db\<lparr>sources := sources db @
                             [\<lparr>src_id = seq_sources db + 1, src_type = PlaylistSource,
                               src_name = ''Playlist '' @ take 8 playlistId @ ''...'',
                               src_youtube_id = Some playlistId, src_last_synced = None,
                               src_created_at = now\<rparr>],
                           seq_sources := seq_sources db + 1\<rparr>)))"
    unfolding handleSourcesAdd_def p by simp
next
  fix i assume "extractPlaylistId (toLowerCase u) = Some i"
  then have "set i \<subseteq> set (toLowerCase u)" by (rule extractPlaylistId_chars)
  then show "toLowerCase i = i" by (intro toLowerCase_fixed) (auto dest: toLowerCase_chars)
next
  fix pre ident
  assume a: "u = pre @ ''?list='' @ ident
         \<and> list_all (\<lambda>c. c \<noteq> CHR ''?'' \<and> c \<noteq> CHR ''&'') pre
         \<and> ident \<noteq> [] \<and> list_all (\<lambda>c. c \<noteq> CHR ''&'') ident"
  then have u: "u = pre @ ''?list='' @ ident"
    and pre: "list_all (\<lambda>c. c \<noteq> CHR ''?'' \<and> c \<noteq> CHR ''&'') pre"
    and ident: "ident \<noteq> []" "list_all (\<lambda>c. c \<noteq> CHR ''&'') ident"
    by blast+
  have "extractPlaylistId (pre @ ''?list='' @ ident) = Some ident"
    using pre ident by (rule extractPlaylistId_query)
  then show "extractPlaylistId u = Some ident" unfolding u .
  have q: "\<And>c. toLowerChar c = CHR ''?'' \<longleftrightarrow> c = CHR ''?''"
    and m: "\<And>c. toLowerChar c = CHR ''&'' \<longleftrightarrow> c = CHR ''&''"
    by (rule toLowerChar_other; simp)+
  from pre ident have "list_all (\<lambda>c. c \<noteq> CHR ''?'' \<and> c \<noteq> CHR ''&'') (toLowerCase pre)"
    and "toLowerCase ident \<noteq> []" and "list_all (\<lambda>c. c \<noteq> CHR ''&'') (toLowerCase ident)"
    by (simp_all add: toLowerCase_def list_all_iff q m)
  then have "extractPlaylistId (toLowerCase pre @ ''?list='' @ toLowerCase ident)
               = Some (toLowerCase ident)"
    by (rule extractPlaylistId_query)
  moreover have "toLowerCase (pre @ ''?list='' @ ident)
                   = toLowerCase pre @ ''?list='' @ toLowerCase ident"
    by (simp add: toLowerCase_def toLowerChar_def)
  ultimately show "extractPlaylistId (toLowerCase u) = Some (toLowerCase ident)"
    unfolding u by (rule ssubst[rotated])
next
  fix input cmd args
  assume "parseCommand input = (cmd, args)"
  then show "toLowerCase cmd = cmd" "map toLowerCase args = args"
    by (simp_all add: parseCommand_lowercase)
qed

theorem C10_sources_add_lowercases_identifier_witness:
  "playlistUrl \<noteq> [] \<and> list_all (\<lambda>c. \<not> isSpace c) playlistUrl
   \<and> extractPlaylistId playlistUrl = Some ''PLAbC123''
   \<and> getSourceByYoutubeId discoveredDb ''PLAbC123'' = Some discoveredSource
   \<and> handleSourcesAdd 9 discoveredDb (''sources add '' @ playlistUrl) =
       Some (AddedSource 3,
             discoveredDb\<lparr>sources := [likedSource, discoveredSource,
                                       \<lparr>src_id = 3, src_type = PlaylistSource,
                                        src_name = ''Playlist plabc123...'',
                                        src_youtube_id = Some ''plabc123'', src_last_synced = None,
                                        src_created_at = 9\<rparr>],
                          seq_sources := 3\<rparr>)"
proof -
  have h: "playlistUrl \<noteq> []" "list_all (\<lambda>c. \<not> isSpace c) playlistUrl"
    by code_simp+
  have e: "extractPlaylistId playlistUrl = Some ''PLAbC123''"
    "extractPlaylistId (toLowerCase playlistUrl) = Some ''plabc123''"
    "getSourceByYoutubeId discoveredDb ''PLAbC123'' = Some discoveredSource"
    "getSourceByYoutubeId discoveredDb ''plabc123'' = None"
    by code_simp+
  have s: "sources discoveredDb = [likedSource, discoveredSource]" "seq_sources discoveredDb = 2"
    by (simp_all add: discoveredDb_def)
  from C10_sources_add_lowercases_identifier[OF h, of 9 discoveredDb] h e s
  show ?thesis by simp
qed

end

